theory Spec2Isabelle
  imports Complex_Main
begin

section \<open>Data model of \<^verbatim>\<open>join-geojson.mjs\<close>\<close>

text \<open>
  The module handles GeoJSON objects as opaque JavaScript values: it never looks inside a
  feature. The type of features is therefore a type parameter \<open>'f\<close>, and the type of
  raw points a type parameter \<open>'p\<close>. A thrown JavaScript exception is a value of type
  \<open>error\<close>, and a function that may throw returns \<open>error + 'a\<close> with \<open>Inl\<close> the
  exception.
\<close>

datatype error = Error string | TypeError string

record 'f featureCollection =
  features :: "'f list"

text \<open>
  The values the two core functions hand back to the route handlers: \<open>null\<close>, one
  feature, or a feature collection.
\<close>

datatype 'f "value" = Null | Feature 'f | Collection "'f featureCollection"

text \<open>
  Modelled from the spec: \<^verbatim>\<open>turf.featureCollection\<close>, the constructor of the geometry
  library, is not part of the repository. It wraps an array of features in a
  FeatureCollection object and keeps the array as it is.
\<close>

definition featureCollection :: "'f list \<Rightarrow> 'f featureCollection" where
  "featureCollection fs = \<lparr>features = fs\<rparr>"

text \<open>
  The geometric operations of the library (\<^verbatim>\<open>turf.union\<close>, \<^verbatim>\<open>turf.point\<close>,
  \<^verbatim>\<open>turf.convex\<close>) are parameters of the functions that call them. Each may throw;
  \<^verbatim>\<open>turf.union\<close> and \<^verbatim>\<open>turf.convex\<close> may return \<open>null\<close>.
\<close>

type_synonym 'f union_op = "'f value \<Rightarrow> 'f value \<Rightarrow> error + 'f value"
type_synonym ('p, 'f) point_op = "'p \<Rightarrow> error + 'f"
type_synonym 'f convex_op = "'f featureCollection \<Rightarrow> error + 'f value"

section \<open>Feature Merger: \<^verbatim>\<open>mergeGeoJSONFeatures\<close> (lines 30-33)\<close>

text \<open>
  An entry of the input array is a parsed FeatureCollection or \<open>null\<close>.
  \<^verbatim>\<open>filter(Boolean)\<close> keeps the truthy entries: \<open>null\<close> is falsy, an object is truthy.
\<close>

fun Boolean :: "'a option \<Rightarrow> bool" where
  "Boolean None = False"
| "Boolean (Some _) = True"

text \<open>
  The callback \<^verbatim>\<open>geojson => geojson.features\<close>: reading a property of \<open>null\<close> throws
  a TypeError.
\<close>

fun get_features :: "'f featureCollection option \<Rightarrow> error + 'f list" where
  "get_features None = Inl (TypeError ''Cannot read properties of null'')"
| "get_features (Some geojson) = Inr (features geojson)"

text \<open>
  \<^verbatim>\<open>Array.prototype.flatMap\<close> with a callback that returns arrays: the callback runs on
  the elements from left to right, the first exception ends the call, and the returned
  arrays are appended in order.
\<close>

fun flatMap :: "('a \<Rightarrow> error + 'b list) \<Rightarrow> 'a list \<Rightarrow> error + 'b list" where
  "flatMap f [] = Inr []"
| "flatMap f (x # xs) =
     (case f x of
        Inl e \<Rightarrow> Inl e
      | Inr ys \<Rightarrow> (case flatMap f xs of Inl e \<Rightarrow> Inl e | Inr zs \<Rightarrow> Inr (ys @ zs)))"

definition mergeGeoJSONFeatures ::
  "'f featureCollection option list \<Rightarrow> error + 'f featureCollection" where
  "mergeGeoJSONFeatures geojsons =
     (case flatMap get_features (filter Boolean geojsons) of
        Inl e \<Rightarrow> Inl e
      | Inr allFeatures \<Rightarrow> Inr (featureCollection allFeatures))"

section \<open>Polygon Unifier: \<^verbatim>\<open>getOuterBoundary\<close> (lines 36-54)\<close>

text \<open>
  The \<^verbatim>\<open>for\<close> loop of lines 45-47, with its index \<open>i\<close> and its accumulator
  \<open>unionFeature\<close>. An exception of \<^verbatim>\<open>turf.union\<close> leaves the loop and the function.
\<close>

function union_loop :: "'f union_op \<Rightarrow> 'f list \<Rightarrow> nat \<Rightarrow> 'f value \<Rightarrow> error + 'f value" where
  "union_loop turf_union fs i unionFeature =
     (if i < length fs then
        (case turf_union unionFeature (Feature (fs ! i)) of
           Inl e \<Rightarrow> Inl e
         | Inr u \<Rightarrow> union_loop turf_union fs (Suc i) u)
      else Inr unionFeature)"
  by pat_completeness auto
termination
  by (relation "measure (\<lambda>(turf_union, fs, i, unionFeature). length fs - i)") auto

declare union_loop.simps [simp del]

definition getOuterBoundary :: "'f union_op \<Rightarrow> 'f featureCollection \<Rightarrow> error + 'f value" where
  "getOuterBoundary turf_union fc =
     (if length (features fc) = 0 then Inr (Collection (featureCollection []))
      else union_loop turf_union (features fc) 1 (Feature (features fc ! 0)))"

text \<open>
  The route handler of \<^verbatim>\<open>/process-zipcodes\<close> composes the two (lines 87-88); the spec
  calls the composition \<open>mergeBoundary\<close>.
\<close>

definition mergeBoundary ::
  "'f union_op \<Rightarrow> 'f featureCollection option list \<Rightarrow> error + 'f value" where
  "mergeBoundary turf_union geojsons =
     (case mergeGeoJSONFeatures geojsons of
        Inl e \<Rightarrow> Inl e
      | Inr mergedFeatures \<Rightarrow> getOuterBoundary turf_union mergedFeatures)"

section \<open>Convex Hull Builder: \<^verbatim>\<open>createBoundaryFromPoints\<close> (lines 57-70)\<close>

text \<open>
  \<^verbatim>\<open>points.map(point => turf.point(point))\<close>: the callback runs on the points from left
  to right and the first exception ends the call.
\<close>

fun map_points :: "('p, 'f) point_op \<Rightarrow> 'p list \<Rightarrow> error + 'f list" where
  "map_points turf_point [] = Inr []"
| "map_points turf_point (p # ps) =
     (case turf_point p of
        Inl e \<Rightarrow> Inl e
      | Inr f \<Rightarrow> (case map_points turf_point ps of Inl e \<Rightarrow> Inl e | Inr fs \<Rightarrow> Inr (f # fs)))"

definition createBoundaryFromPoints ::
  "('p, 'f) point_op \<Rightarrow> 'f convex_op \<Rightarrow> 'p list \<Rightarrow> error + 'f value" where
  "createBoundaryFromPoints turf_point turf_convex points =
     (if length points < 3 then
        Inl (Error ''At least three points are required to create a boundary.'')
      else
        (case map_points turf_point points of
           Inl e \<Rightarrow> Inl e
         | Inr pointFeatures \<Rightarrow> turf_convex (featureCollection pointFeatures)))"

section \<open>The left fold of the specification\<close>

text \<open>
  The specification of the Polygon Unifier, in its own words: start with the first
  feature and, for each further feature in order, replace the accumulator with the union
  of the accumulator and that feature. A union that fails ends the fold with its failure.
\<close>

fun fold_union :: "'f union_op \<Rightarrow> 'f value \<Rightarrow> 'f list \<Rightarrow> error + 'f value" where
  "fold_union turf_union acc [] = Inr acc"
| "fold_union turf_union acc (f # fs) =
     (case turf_union acc (Feature f) of
        Inl e \<Rightarrow> Inl e
      | Inr acc' \<Rightarrow> fold_union turf_union acc' fs)"

section \<open>Concrete features and library stand-ins for the examples\<close>

text \<open>
  Modelled from the spec: the GeoJSON data model of its section 3, which the module takes
  from the files it reads and never declares. A position is a pair (longitude, latitude);
  a polygon is a list of rings, a ring a list of positions.
\<close>

type_synonym position = "real \<times> real"

datatype geometry =
    Point position
  | LineString "position list"
  | Polygon "position list list"
  | MultiPolygon "position list list list"

record feature =
  geometry :: geometry
  properties :: "(string \<times> string) list"

text \<open>
  The theorems below hold for every library operation. The examples instantiate them
  with the following stand-ins: a union that throws at every call, a union on labelled
  features that writes down which unions were taken, \<^verbatim>\<open>turf.point\<close> on a well-formed
  position, and a hull computation that finds no hull.
\<close>

definition union_rejecting :: "feature union_op" where
  "union_rejecting a b = Inl (Error ''union failed'')"

fun union_symbolic :: "string union_op" where
  "union_symbolic (Feature a) (Feature b) = Inr (Feature (''('' @ a @ ''+'' @ b @ '')''))"
| "union_symbolic a b = Inl (TypeError ''not a feature'')"

definition point_feature :: "(position, feature) point_op" where
  "point_feature p = Inr \<lparr>geometry = Point p, properties = []\<rparr>"

definition convex_null :: "feature convex_op" where
  "convex_null fc = Inr Null"

section \<open>The Feature Merger\<close>

lemma flatMap_get_features:
  "flatMap get_features (filter Boolean gs) =
     Inr (concat (map features (map the (filter (\<lambda>g. g \<noteq> None) gs))))"
proof (induction gs)
  case Nil
  show ?case by simp
next
  case (Cons g gs)
  then show ?case by (cases g) simp_all
qed

text \<open>
  Claim C7. For every sequence of entries, each a FeatureCollection or absent,
  \<open>mergeGeoJSONFeatures\<close> returns (without raising) one FeatureCollection whose features
  are the features of the non-absent entries, concatenated in the order of the entries:
  absent entries are discarded and the relative order of all other features is kept.
\<close>

theorem mergeGeoJSONFeatures_concat:
  "mergeGeoJSONFeatures geojsons =
     Inr (featureCollection
       (concat (map features (map the (filter (\<lambda>g. g \<noteq> None) geojsons)))))"
  by (simp add: mergeGeoJSONFeatures_def flatMap_get_features)

theorem mergeGeoJSONFeatures_concat_witness:
  "mergeGeoJSONFeatures
     [Some (featureCollection [''a'', ''b'']), None, Some (featureCollection [''c''])] =
   Inr (featureCollection [''a'', ''b'', ''c''])"
  using mergeGeoJSONFeatures_concat
    [of "[Some (featureCollection [''a'', ''b'']), None, Some (featureCollection [''c''])]"]
  by (simp add: featureCollection_def)

section \<open>The Polygon Unifier\<close>

lemma union_loop_fold: "union_loop u fs i acc = fold_union u acc (drop i fs)"
proof (induction u fs i acc rule: union_loop.induct)
  case (1 u fs i acc)
  show ?case
  proof (cases "i < length fs")
    case True
    then have d: "drop i fs = fs ! i # drop (Suc i) fs"
      by (simp add: Cons_nth_drop_Suc)
    show ?thesis
      using True 1 by (subst union_loop.simps) (simp add: d split: sum.splits)
  next
    case False
    then show ?thesis by (subst union_loop.simps) simp
  qed
qed

lemma getOuterBoundary_Cons:
  "getOuterBoundary u (featureCollection (f # fs)) = fold_union u (Feature f) fs"
  by (simp add: getOuterBoundary_def featureCollection_def union_loop_fold)

lemma getOuterBoundary_features:
  "getOuterBoundary u fc = getOuterBoundary u (featureCollection (features fc))"
  by (simp add: getOuterBoundary_def featureCollection_def)

text \<open>
  Claim C1. For every FeatureCollection, \<open>getOuterBoundary\<close> returns an empty
  FeatureCollection when there is no feature, the single feature unchanged (and so its
  geometry unchanged) when there is one, and otherwise the left fold that starts with
  \<open>features[0]\<close> and replaces the accumulator with the union of the accumulator and
  \<open>features[i]\<close> for \<open>i = 1..M-1\<close>.
\<close>

theorem getOuterBoundary_left_fold:
  "getOuterBoundary turf_union fc =
     (case features fc of
        [] \<Rightarrow> Inr (Collection (featureCollection []))
      | [f] \<Rightarrow> Inr (Feature f)
      | f # fs \<Rightarrow> fold_union turf_union (Feature f) fs)"
proof (cases "features fc")
  case Nil
  then show ?thesis by (simp add: getOuterBoundary_def)
next
  case (Cons f fs)
  have "getOuterBoundary turf_union fc = fold_union turf_union (Feature f) fs"
    using getOuterBoundary_features [of turf_union fc] Cons
    by (simp add: getOuterBoundary_Cons)
  then show ?thesis using Cons by (cases fs) simp_all
qed

theorem getOuterBoundary_left_fold_witness:
  "getOuterBoundary union_symbolic (featureCollection []) =
     Inr (Collection (featureCollection [])) \<and>
   getOuterBoundary union_symbolic (featureCollection [''A'']) = Inr (Feature ''A'') \<and>
   getOuterBoundary union_symbolic (featureCollection [''A'', ''B'', ''C'']) =
     Inr (Feature ''((A+B)+C)'')"
  using getOuterBoundary_left_fold [of union_symbolic "featureCollection []"]
    getOuterBoundary_left_fold [of union_symbolic "featureCollection [''A'']"]
    getOuterBoundary_left_fold [of union_symbolic "featureCollection [''A'', ''B'', ''C'']"]
  by (simp add: featureCollection_def)

lemma fold_union_fails:
  "fold_union u a xs = Inl e \<longleftrightarrow>
     (\<exists>k acc. k < length xs \<and> fold_union u a (take k xs) = Inr acc \<and>
        u acc (Feature (xs ! k)) = Inl e)"
proof (induction xs arbitrary: a)
  case Nil
  show ?case by simp
next
  case (Cons x xs)
  show ?case
  proof (cases "u a (Feature x)")
    case (Inl e')
    then show ?thesis by (auto simp: less_Suc_eq_0_disj)
  next
    case (Inr a')
    then show ?thesis using Cons.IH [of a'] by (auto simp: less_Suc_eq_0_disj)
  qed
qed

text \<open>
  Claim C5, as amended. \<open>getOuterBoundary\<close> does not inspect geometry and raises no error
  of its own. It fails exactly when one of the union steps \<open>i = 1..M-1\<close> throws after
  all earlier steps have succeeded, and then it fails with that step's exception as the
  library threw it, with no step index added; the result type holds either the exception or
  a value, so nothing is returned beside a failure. In particular it never fails on fewer
  than two features.
\<close>

theorem getOuterBoundary_failure:
  "getOuterBoundary turf_union fc = Inl e \<longleftrightarrow>
     (\<exists>i acc. 1 \<le> i \<and> i < length (features fc) \<and>
        getOuterBoundary turf_union (featureCollection (take i (features fc))) = Inr acc \<and>
        turf_union acc (Feature (features fc ! i)) = Inl e)"
proof (cases "features fc")
  case Nil
  then show ?thesis by (simp add: getOuterBoundary_def)
next
  case (Cons f fs)
  have l: "getOuterBoundary turf_union fc = fold_union turf_union (Feature f) fs"
    using getOuterBoundary_features [of turf_union fc] Cons
    by (simp add: getOuterBoundary_Cons)
  have r: "(\<exists>i acc. 1 \<le> i \<and> i < length (features fc) \<and>
        getOuterBoundary turf_union (featureCollection (take i (features fc))) = Inr acc \<and>
        turf_union acc (Feature (features fc ! i)) = Inl e) \<longleftrightarrow>
      (\<exists>k acc. k < length fs \<and> fold_union turf_union (Feature f) (take k fs) = Inr acc \<and>
        turf_union acc (Feature (fs ! k)) = Inl e)" (is "?A \<longleftrightarrow> ?B")
  proof
    assume ?A
    then obtain i acc where i: "1 \<le> i" "i < length (features fc)"
      "getOuterBoundary turf_union (featureCollection (take i (features fc))) = Inr acc"
      "turf_union acc (Feature (features fc ! i)) = Inl e" by blast
    from i(1) obtain k where k: "i = Suc k" by (cases i) auto
    with i Cons show ?B by (auto simp: getOuterBoundary_Cons)
  next
    assume ?B
    then obtain k acc where k: "k < length fs"
      "fold_union turf_union (Feature f) (take k fs) = Inr acc"
      "turf_union acc (Feature (fs ! k)) = Inl e" by blast
    with Cons have "1 \<le> Suc k \<and> Suc k < length (features fc) \<and>
        getOuterBoundary turf_union (featureCollection (take (Suc k) (features fc))) = Inr acc \<and>
        turf_union acc (Feature (features fc ! Suc k)) = Inl e"
      by (simp add: getOuterBoundary_Cons)
    then show ?A by blast
  qed
  show ?thesis unfolding l r by (rule fold_union_fails)
qed

text \<open>
  A unit square followed by a polygon whose ring has two positions, under a union that
  throws: step 1 fails on the accumulator \<open>features[0]\<close>, and the function fails with
  that exception.
\<close>

theorem getOuterBoundary_failure_witness:
  "getOuterBoundary union_rejecting
     (featureCollection
       [\<lparr>geometry = Polygon [[(0, 0), (1, 0), (1, 1), (0, 1), (0, 0)]], properties = []\<rparr>,
        \<lparr>geometry = Polygon [[(0, 0), (1, 1)]], properties = []\<rparr>]) =
     Inl (Error ''union failed'')"
proof -
  let ?sq = "\<lparr>geometry = Polygon [[(0, 0), (1, 0), (1, 1), (0, 1), (0, 0)]], properties = []\<rparr>"
  let ?bad = "\<lparr>geometry = Polygon [[(0, 0), (1, 1)]], properties = []\<rparr>"
  let ?fc = "featureCollection [?sq, ?bad]"
  have "1 \<le> (1 :: nat) \<and> 1 < length (features ?fc) \<and>
      getOuterBoundary union_rejecting (featureCollection (take 1 (features ?fc))) =
        Inr (Feature ?sq) \<and>
      union_rejecting (Feature ?sq) (Feature (features ?fc ! 1)) = Inl (Error ''union failed'')"
    by (simp add: featureCollection_def getOuterBoundary_def union_loop.simps
        union_rejecting_def)
  then have "\<exists>i acc. 1 \<le> i \<and> i < length (features ?fc) \<and>
      getOuterBoundary union_rejecting (featureCollection (take i (features ?fc))) = Inr acc \<and>
      union_rejecting acc (Feature (features ?fc ! i)) = Inl (Error ''union failed'')"
    by blast
  then show ?thesis
    by (simp only: getOuterBoundary_failure [of union_rejecting ?fc "Error ''union failed''"])
qed

text \<open>
  The claim as stated fails on a collection of one feature whose polygon ring has two
  positions (fewer than the four a ring needs): no union is taken, and the feature is
  returned as the boundary, with no failure, even under a union that rejects every input.
\<close>

theorem getOuterBoundary_single_invalid_counterexample:
  "getOuterBoundary union_rejecting
     (featureCollection [\<lparr>geometry = Polygon [[(0, 0), (1, 1)]], properties = []\<rparr>]) =
   Inr (Feature \<lparr>geometry = Polygon [[(0, 0), (1, 1)]], properties = []\<rparr>)"
  by (simp add: getOuterBoundary_def featureCollection_def union_loop.simps)

section \<open>The composition \<open>mergeBoundary\<close>\<close>

lemma filter_Boolean_absent: "set gs \<subseteq> {None} \<Longrightarrow> filter Boolean gs = []"
  by (induction gs) auto

text \<open>
  Claim C3. \<open>mergeBoundary\<close> applied to a sequence whose entries are all \<open>null\<close>, the
  empty sequence among them, returns a FeatureCollection with zero features and raises no
  error, whatever the union operation does.
\<close>

theorem mergeBoundary_absent:
  "set geojsons \<subseteq> {None} \<Longrightarrow>
   mergeBoundary turf_union geojsons = Inr (Collection (featureCollection []))"
  by (simp add: mergeBoundary_def mergeGeoJSONFeatures_def filter_Boolean_absent
      getOuterBoundary_def featureCollection_def)

theorem mergeBoundary_absent_witness:
  "mergeBoundary union_rejecting [] = Inr (Collection (featureCollection [])) \<and>
   mergeBoundary union_rejecting [None, None] = Inr (Collection (featureCollection []))"
  using mergeBoundary_absent [of "[]" union_rejecting]
    mergeBoundary_absent [of "[None, None]" union_rejecting]
  by simp

section \<open>The Convex Hull Builder\<close>

text \<open>
  Claim C4. For every sequence of fewer than 3 points, \<open>createBoundaryFromPoints\<close> fails
  with the error whose message says that at least three points are required. The result
  is the same for every \<^verbatim>\<open>turf.point\<close> and \<^verbatim>\<open>turf.convex\<close>: the check comes before any
  geometric computation.
\<close>

theorem createBoundaryFromPoints_too_few:
  "length points < 3 \<Longrightarrow>
   createBoundaryFromPoints turf_point turf_convex points =
     Inl (Error ''At least three points are required to create a boundary.'')"
  by (simp add: createBoundaryFromPoints_def)

theorem createBoundaryFromPoints_too_few_witness:
  "createBoundaryFromPoints point_feature convex_null [(0, 0), (1, 1)] =
     Inl (Error ''At least three points are required to create a boundary.'')"
  using createBoundaryFromPoints_too_few [of "[(0, 0), (1, 1)]" point_feature convex_null]
  by simp

lemma map_points_all2:
  "list_all2 (\<lambda>p f. tp p = Inr f) ps fs \<Longrightarrow> map_points tp ps = Inr fs"
  by (induction ps fs rule: list_all2_induct) simp_all

text \<open>
  Claim C10. For every sequence of at least 3 points, each wrapped by \<^verbatim>\<open>turf.point\<close> into
  a point feature, \<open>createBoundaryFromPoints\<close> raises no error of its own after the
  length check: its outcome is that of \<^verbatim>\<open>turf.convex\<close> on the collection of the point
  features, so a \<open>null\<close> of the hull computation is returned as \<open>null\<close>, not turned
  into an error.
\<close>

theorem createBoundaryFromPoints_returns_convex:
  "3 \<le> length points \<Longrightarrow>
   list_all2 (\<lambda>p f. turf_point p = Inr f) points pointFeatures \<Longrightarrow>
   createBoundaryFromPoints turf_point turf_convex points =
     turf_convex (featureCollection pointFeatures)"
  by (simp add: createBoundaryFromPoints_def map_points_all2)

text \<open>Three collinear points, for which the hull computation answers \<open>null\<close>.\<close>

theorem createBoundaryFromPoints_returns_convex_witness:
  "createBoundaryFromPoints point_feature convex_null [(0, 0), (1, 1), (2, 2)] = Inr Null"
proof -
  have l: "3 \<le> length [(0, 0), (1, 1), (2, 2 :: real) :: position]" by simp
  have a: "list_all2 (\<lambda>p f. point_feature p = Inr f) [(0, 0), (1, 1), (2, 2)]
     [\<lparr>geometry = Point (0, 0), properties = []\<rparr>,
      \<lparr>geometry = Point (1, 1), properties = []\<rparr>,
      \<lparr>geometry = Point (2, 2), properties = []\<rparr>]"
    by (simp add: point_feature_def)
  show ?thesis
    using createBoundaryFromPoints_returns_convex [OF l a, of convex_null]
    by (simp add: convex_null_def)
qed

text \<open>
  The length check counts the entries of the sequence as they come, repeated points
  included, and the function removes none: a point given twice beside one other point
  reaches the hull computation, and the same two points given once each do not.
\<close>

lemma createBoundaryFromPoints_repeated_point:
  "createBoundaryFromPoints turf_point turf_convex [p, q] =
     Inl (Error ''At least three points are required to create a boundary.'')"
  "turf_point p = Inr f \<Longrightarrow> turf_point q = Inr g \<Longrightarrow>
   createBoundaryFromPoints turf_point turf_convex [p, p, q] =
     turf_convex (featureCollection [f, f, g])"
  by (simp_all add: createBoundaryFromPoints_def)

end
